theory Spec2Isabelle
  imports Main "HOL-Library.Word"
begin

section \<open>Prin Search: the provider router of \<open>src/index.js\<close>\<close>

text \<open>
  The program forwards a prompt to one of several hosted language-model services. The
  development embeds its argument helpers, the per-provider callers, the router \<open>ask\<close>,
  the interactive loop and the entry function, and proves the properties the
  specification states about them.
\<close>

subsection \<open>Strings\<close>

text \<open>
  A JavaScript string is a sequence of 16-bit code units. \<open>js\<close> turns a literal of the
  program text, which is ASCII throughout, into its code units.
\<close>

type_synonym code_unit = "16 word"

type_synonym jsstring = "code_unit list"

definition js :: "string \<Rightarrow> jsstring" where
  "js s = map of_char s"

text \<open>
  \<open>String.prototype.toLowerCase\<close> converts by the Unicode default case conversion. On
  an ASCII code unit that is the folding of \<open>A\<close> to \<open>Z\<close>, whatever stands around it. On
  the other code units it is the case table of the runtime, which is no part of the
  repository and is taken as the parameter \<open>U\<close>: \<open>U s i\<close> are the code units written
  for the unit at index \<open>i\<close> of \<open>s\<close>. It is given the whole string because the table
  looks at neighbours (a surrogate pair, a final sigma) and may write none, one or
  several units (\<open>U+212A\<close> becomes \<open>k\<close>, \<open>U+0130\<close> becomes two units).
\<close>

type_synonym unicode_lower = "jsstring \<Rightarrow> nat \<Rightarrow> jsstring"

definition lower_ascii :: "code_unit \<Rightarrow> code_unit" where
  "lower_ascii c = (if 0x41 \<le> c \<and> c \<le> 0x5A then c + 0x20 else c)"

fun lower_units :: "unicode_lower \<Rightarrow> jsstring \<Rightarrow> nat \<Rightarrow> jsstring \<Rightarrow> jsstring" where
  "lower_units U s i [] = []"
| "lower_units U s i (c # cs) =
     (if c < 0x80 then [lower_ascii c] else U s i) @ lower_units U s (Suc i) cs"

definition toLowerCase :: "unicode_lower \<Rightarrow> jsstring \<Rightarrow> jsstring" where
  "toLowerCase U s = lower_units U s 0 s"

text \<open>
  \<open>String.prototype.trim\<close> strips white space and line terminators from both ends:
  TAB, LF, VT, FF, CR, the space, the no-break space, \<open>U+1680\<close>, \<open>U+2000\<close> to
  \<open>U+200A\<close>, the line and paragraph separators, \<open>U+202F\<close>, \<open>U+205F\<close>, \<open>U+3000\<close> and
  the byte order mark \<open>U+FEFF\<close>.
\<close>

definition is_space :: "code_unit \<Rightarrow> bool" where
  "is_space c =
     (c \<in> {0x09, 0x0A, 0x0B, 0x0C, 0x0D, 0x20, 0xA0, 0x1680, 0x2028, 0x2029, 0x202F, 0x205F,
            0x3000, 0xFEFF}
      \<or> (0x2000 \<le> c \<and> c \<le> 0x200A))"

definition trim :: "jsstring \<Rightarrow> jsstring" where
  "trim s = rev (dropWhile is_space (rev (dropWhile is_space s)))"

fun startsWith :: "jsstring \<Rightarrow> jsstring \<Rightarrow> bool" where
  "startsWith s [] = True"
| "startsWith [] (p # ps) = False"
| "startsWith (c # cs) (p # ps) = (c = p \<and> startsWith cs ps)"

subsection \<open>JavaScript values\<close>

text \<open>
  The values a parsed JSON reply can hold, with \<open>undefined\<close> for a missing property.
  An object is its list of fields, read by the first entry of a name. Numbers are
  integers: the program only tests them for truthiness and prints them.
\<close>

datatype json =
    JUndefined
  | JNull
  | JBool bool
  | JNum int
  | JStr jsstring
  | JArr "json list"
  | JObj "(jsstring \<times> json) list"

text \<open>Truthiness, as \<open>!v\<close>, \<open>v ? a : b\<close> and \<open>v || d\<close> test it.\<close>

fun truthy :: "json \<Rightarrow> bool" where
  "truthy JUndefined = False"
| "truthy JNull = False"
| "truthy (JBool b) = b"
| "truthy (JNum n) = (n \<noteq> 0)"
| "truthy (JStr s) = (s \<noteq> [])"
| "truthy (JArr xs) = True"
| "truthy (JObj fs) = True"

definition or_else :: "json \<Rightarrow> json \<Rightarrow> json" where
  \<comment> \<open>\<open>a || b\<close>\<close>
  "or_else a b = (if truthy a then a else b)"

fun nullish :: "json \<Rightarrow> bool" where
  "nullish JUndefined = True"
| "nullish JNull = True"
| "nullish v = False"

text \<open>
  \<open>v.name\<close> on a value that is neither \<open>null\<close> nor \<open>undefined\<close>, for the property
  names the program reads (\<open>choices\<close>, \<open>message\<close>, \<open>content\<close>, \<open>text\<close>): only an
  object can carry them.
\<close>

fun getprop :: "json \<Rightarrow> jsstring \<Rightarrow> json" where
  "getprop (JObj fs) name = (case map_of fs name of None \<Rightarrow> JUndefined | Some v \<Rightarrow> v)"
| "getprop v name = JUndefined"

text \<open>\<open>v[0]\<close> on a value that is neither \<open>null\<close> nor \<open>undefined\<close>.\<close>

fun index0 :: "json \<Rightarrow> json" where
  "index0 (JArr xs) = (case xs of [] \<Rightarrow> JUndefined | x # _ \<Rightarrow> x)"
| "index0 (JStr s) = (case s of [] \<Rightarrow> JUndefined | c # _ \<Rightarrow> JStr [c])"
| "index0 (JObj fs) = (case map_of fs (js ''0'') of None \<Rightarrow> JUndefined | Some v \<Rightarrow> v)"
| "index0 v = JUndefined"

definition opt_prop :: "json \<Rightarrow> jsstring \<Rightarrow> json" where
  \<comment> \<open>\<open>v?.name\<close>\<close>
  "opt_prop v name = (if nullish v then JUndefined else getprop v name)"

definition opt_index0 :: "json \<Rightarrow> json" where
  \<comment> \<open>\<open>v?.[0]\<close>\<close>
  "opt_index0 v = (if nullish v then JUndefined else index0 v)"

text \<open>Decimal digits of a number, for \<open>String(n)\<close>.\<close>

fun digits :: "nat \<Rightarrow> jsstring" where
  "digits n = (if n < 10 then [of_nat (48 + n)] else digits (n div 10) @ [of_nat (48 + n mod 10)])"

declare digits.simps [simp del]

fun join :: "jsstring \<Rightarrow> jsstring list \<Rightarrow> jsstring" where
  "join sep [] = []"
| "join sep [x] = x"
| "join sep (x # y # ys) = x @ sep @ join sep (y # ys)"

text \<open>
  \<open>String(v)\<close>, the conversion a template literal and \<open>Array.prototype.join\<close> apply.
  \<open>join\<close> writes \<open>null\<close> and \<open>undefined\<close> elements as the empty string.
\<close>

fun toString :: "json \<Rightarrow> jsstring" where
  "toString JUndefined = js ''undefined''"
| "toString JNull = js ''null''"
| "toString (JBool b) = (if b then js ''true'' else js ''false'')"
| "toString (JNum n) = (if n < 0 then js ''-'' @ digits (nat (- n)) else digits (nat n))"
| "toString (JStr s) = s"
| "toString (JArr xs) = join (js '','') (map (\<lambda>x. if nullish x then [] else toString x) xs)"
| "toString (JObj fs) = js ''[object Object]''"

definition array_join :: "json list \<Rightarrow> jsstring \<Rightarrow> jsstring" where
  \<comment> \<open>\<open>xs.join(sep)\<close>\<close>
  "array_join xs sep = join sep (map (\<lambda>x. if nullish x then [] else toString x) xs)"

subsection \<open>Strings that may be missing\<close>

text \<open>
  A command-line value, an environment variable or the model override is a string,
  \<open>null\<close> or \<open>undefined\<close>: \<open>None\<close> stands for both of the latter. The empty string
  is falsy as well.
\<close>

fun truthy_opt :: "jsstring option \<Rightarrow> bool" where
  "truthy_opt None = False"
| "truthy_opt (Some s) = (s \<noteq> [])"

definition or_opt :: "jsstring option \<Rightarrow> jsstring option \<Rightarrow> jsstring option" where
  \<comment> \<open>\<open>a || b\<close>\<close>
  "or_opt a b = (if truthy_opt a then a else b)"

definition or_str :: "jsstring option \<Rightarrow> jsstring \<Rightarrow> jsstring" where
  \<comment> \<open>\<open>a || d\<close> with a string \<open>d\<close>\<close>
  "or_str a d = (case a of None \<Rightarrow> d | Some s \<Rightarrow> if s \<noteq> [] then s else d)"

subsection \<open>Errors, requests and the world\<close>

datatype error = Error jsstring | TypeError jsstring

fun message :: "error \<Rightarrow> jsstring" where
  "message (Error m) = m"
| "message (TypeError m) = m"

record chat_message =
  role :: jsstring
  content :: jsstring

text \<open>
  One outbound call of a provider client: the chat-completion call of the OpenAI client
  (API key, base URL override, model, messages), the content-generation call of the
  Gemini client (key, model, prompt) and the message-creation call of the Anthropic
  client (API key, model, token ceiling, messages).
\<close>

datatype request =
    ChatCompletion jsstring "jsstring option" jsstring "chat_message list"
  | GenerateContent jsstring jsstring jsstring
  | MessagesCreate jsstring jsstring nat "chat_message list"

text \<open>
  The network answers a request, given the requests made before it, with a transport
  error or a reply. For the Gemini client the reply is what \<open>result.response.text()\<close>
  returns.
\<close>

type_synonym network = "request list \<Rightarrow> request \<Rightarrow> error + json"

type_synonym environment = "string \<rightharpoonup> jsstring"

text \<open>What the program does to its surroundings: the calls made and the lines written.\<close>

record world =
  requests :: "request list"
  stdout :: "jsstring list"
  stderr :: "jsstring list"

definition send :: "network \<Rightarrow> request \<Rightarrow> world \<Rightarrow> (error + json) \<times> world" where
  "send net req w = (net (requests w) req, w\<lparr>requests := requests w @ [req]\<rparr>)"

definition console_log :: "jsstring \<Rightarrow> world \<Rightarrow> world" where
  "console_log line w = w\<lparr>stdout := stdout w @ [line]\<rparr>"

definition console_error :: "jsstring \<Rightarrow> world \<Rightarrow> world" where
  "console_error line w = w\<lparr>stderr := stderr w @ [line]\<rparr>"

subsection \<open>Defaults and output\<close>

record defaults =
  openai :: jsstring
  gemini :: jsstring
  perplexity :: jsstring
  deepseek :: jsstring
  claude :: jsstring
  grok :: jsstring

definition DEFAULTS :: defaults where
  "DEFAULTS = \<lparr>
     openai = js ''gpt-4o-mini'',
     gemini = js ''gemini-1.5-flash'',
     perplexity = js ''sonar-pro'',
     deepseek = js ''deepseek-chat'',
     claude = js ''claude-3-5-sonnet-20240620'',
     grok = js ''grok-2-latest'' \<rparr>"

definition out :: "jsstring \<Rightarrow> json \<Rightarrow> world \<Rightarrow> world" where
  "out label text w =
     console_log ([0x0A] @ js ''=== '' @ label @ js '' ==='' @ [0x0A] @ toString text @ [0x0A]) w"

subsection \<open>Per-provider callers\<close>

text \<open>The value \<open>callOpenAI\<close> returns: \<open>res.choices?.[0]?.message?.content || ''\<close>.\<close>

definition openai_content :: "json \<Rightarrow> error + json" where
  "openai_content res =
     (if nullish res then Inl (TypeError (js ''Cannot read properties of undefined (reading 'choices')''))
      else Inr (or_else
                  (opt_prop (opt_prop (opt_index0 (getprop res (js ''choices''))) (js ''message'')) (js ''content''))
                  (JStr [])))"

definition callOpenAI ::
  "network \<Rightarrow> jsstring \<Rightarrow> jsstring option \<Rightarrow> jsstring option \<Rightarrow> jsstring \<Rightarrow> world
     \<Rightarrow> (error + json) \<times> world" where
  "callOpenAI net prompt model baseURL apiKey w =
     (let model' = (case model of None \<Rightarrow> openai DEFAULTS | Some m \<Rightarrow> m);
          client_baseURL = (if truthy_opt baseURL then baseURL else None)
      in case send net (ChatCompletion apiKey client_baseURL model'
                          [\<lparr>role = js ''user'', content = prompt\<rparr>]) w of
           (Inl e, w') \<Rightarrow> (Inl e, w')
         | (Inr res, w') \<Rightarrow> (openai_content res, w'))"

definition callGemini ::
  "network \<Rightarrow> environment \<Rightarrow> jsstring \<Rightarrow> jsstring option \<Rightarrow> world
     \<Rightarrow> (error + json) \<times> world" where
  "callGemini net env prompt model w =
     (let model' = (case model of None \<Rightarrow> gemini DEFAULTS | Some m \<Rightarrow> m);
          key = env ''GOOGLE_API_KEY''
      in if \<not> truthy_opt key then (Inl (Error (js ''Missing GOOGLE_API_KEY'')), w)
         else send net (GenerateContent (the key) model' prompt) w)"

text \<open>
  The value \<open>callClaude\<close> returns: \<open>res.content?.map(b => b.text || '').join('').trim()\<close>,
  or the empty string when that is falsy. Only an array has \<open>map\<close>.
\<close>

definition claude_text :: "json \<Rightarrow> error + json" where
  "claude_text res =
     (if nullish res then Inl (TypeError (js ''Cannot read properties of undefined (reading 'content')''))
      else let c = getprop res (js ''content'')
        in if nullish c then Inr (JStr [])
           else case c of
               JArr bs \<Rightarrow>
                 (if \<exists>b \<in> set bs. nullish b
                  then Inl (TypeError (js ''Cannot read properties of undefined (reading 'text')''))
                  else Inr (or_else
                         (JStr (trim (array_join (map (\<lambda>b. or_else (getprop b (js ''text'')) (JStr [])) bs) [])))
                         (JStr [])))
             | _ \<Rightarrow> Inl (TypeError (js ''res.content?.map is not a function'')))"

definition callClaude ::
  "network \<Rightarrow> environment \<Rightarrow> jsstring \<Rightarrow> jsstring option \<Rightarrow> world
     \<Rightarrow> (error + json) \<times> world" where
  "callClaude net env prompt model w =
     (let model' = (case model of None \<Rightarrow> claude DEFAULTS | Some m \<Rightarrow> m);
          key = env ''ANTHROPIC_API_KEY''
      in if \<not> truthy_opt key then (Inl (Error (js ''Missing ANTHROPIC_API_KEY'')), w)
         else case send net (MessagesCreate (the key) model' 1024
                               [\<lparr>role = js ''user'', content = prompt\<rparr>]) w of
                (Inl e, w') \<Rightarrow> (Inl e, w')
              | (Inr res, w') \<Rightarrow> (claude_text res, w'))"

definition callPerplexity ::
  "network \<Rightarrow> environment \<Rightarrow> jsstring \<Rightarrow> jsstring option \<Rightarrow> world
     \<Rightarrow> (error + json) \<times> world" where
  "callPerplexity net env prompt model w =
     (let model' = (case model of None \<Rightarrow> perplexity DEFAULTS | Some m \<Rightarrow> m);
          key = env ''PPLX_API_KEY''
      in if \<not> truthy_opt key then (Inl (Error (js ''Missing PPLX_API_KEY'')), w)
         else callOpenAI net prompt (Some model') (Some (js ''https://api.perplexity.ai'')) (the key) w)"

definition callDeepSeek ::
  "network \<Rightarrow> environment \<Rightarrow> jsstring \<Rightarrow> jsstring option \<Rightarrow> world
     \<Rightarrow> (error + json) \<times> world" where
  "callDeepSeek net env prompt model w =
     (let model' = (case model of None \<Rightarrow> deepseek DEFAULTS | Some m \<Rightarrow> m);
          key = env ''DEEPSEEK_API_KEY''
      in if \<not> truthy_opt key then (Inl (Error (js ''Missing DEEPSEEK_API_KEY'')), w)
         else callOpenAI net prompt (Some model') (Some (js ''https://api.deepseek.com/v1'')) (the key) w)"

definition callGrok ::
  "network \<Rightarrow> environment \<Rightarrow> jsstring \<Rightarrow> jsstring option \<Rightarrow> world
     \<Rightarrow> (error + json) \<times> world" where
  "callGrok net env prompt model w =
     (let model' = (case model of None \<Rightarrow> grok DEFAULTS | Some m \<Rightarrow> m);
          key = env ''XAI_API_KEY''
      in if \<not> truthy_opt key then (Inl (Error (js ''Missing XAI_API_KEY'')), w)
         else callOpenAI net prompt (Some model') (Some (js ''https://api.x.ai/v1'')) (the key) w)"

subsection \<open>Router\<close>

text \<open>
  The \<open>switch\<close> compares the key as it is. The labels \<open>openai\<close> and \<open>chatgpt\<close> fall
  through to the \<open>default\<close> block, so one last branch stands for all three.
\<close>

definition ask ::
  "network \<Rightarrow> environment \<Rightarrow> jsstring \<Rightarrow> jsstring \<Rightarrow> jsstring option \<Rightarrow> world
     \<Rightarrow> (error + json) \<times> world" where
  "ask net env provider prompt model w =
     (if provider = js ''gemini'' then callGemini net env prompt (Some (or_str model (gemini DEFAULTS))) w
      else if provider = js ''claude'' then callClaude net env prompt (Some (or_str model (claude DEFAULTS))) w
      else if provider = js ''perplexity'' then callPerplexity net env prompt (Some (or_str model (perplexity DEFAULTS))) w
      else if provider = js ''deepseek'' then callDeepSeek net env prompt (Some (or_str model (deepseek DEFAULTS))) w
      else if provider = js ''grok'' then callGrok net env prompt (Some (or_str model (grok DEFAULTS))) w
      else
        (let key = env ''OPENAI_API_KEY''
         in if \<not> truthy_opt key then (Inl (Error (js ''Missing OPENAI_API_KEY'')), w)
            else callOpenAI net prompt (Some (or_str model (openai DEFAULTS))) None (the key) w))"

subsection \<open>Command-line arguments\<close>

fun indexOf :: "jsstring list \<Rightarrow> jsstring \<Rightarrow> int" where
  "indexOf [] x = - 1"
| "indexOf (y # ys) x = (if y = x then 0 else let i = indexOf ys x in if i < 0 then - 1 else i + 1)"

definition at :: "jsstring list \<Rightarrow> int \<Rightarrow> jsstring option" where
  \<comment> \<open>\<open>xs[i]\<close>, \<open>undefined\<close> outside the array\<close>
  "at xs i = (if 0 \<le> i \<and> i < int (length xs) then Some (xs ! nat i) else None)"

definition getArg :: "jsstring list \<Rightarrow> jsstring \<Rightarrow> jsstring option \<Rightarrow> jsstring option" where
  "getArg args flag fallback =
     (let i = indexOf args flag
      in if i \<ge> 0 then or_opt (at args (i + 1)) None else fallback)"

definition hasFlag :: "jsstring list \<Rightarrow> jsstring \<Rightarrow> bool" where
  "hasFlag args flag = (flag \<in> set args)"

definition PROVIDER :: "unicode_lower \<Rightarrow> jsstring list \<Rightarrow> jsstring" where
  "PROVIDER U args =
     toLowerCase U
       (or_str (or_opt (getArg args (js ''-p'') None) (getArg args (js ''--provider'') None))
          (js ''gemini''))"

definition MODEL :: "jsstring list \<Rightarrow> jsstring option" where
  "MODEL args = or_opt (or_opt (getArg args (js ''-m'') None) (getArg args (js ''--model'') None)) None"

definition PROMPT :: "jsstring list \<Rightarrow> jsstring option" where
  "PROMPT args =
     (case filter (\<lambda>(i, a). int i = int (length args) - 1 \<and> \<not> startsWith a (js ''-'')) (enumerate 0 args) of
        [] \<Rightarrow> None
      | (i, a) # _ \<Rightarrow> Some a)"

definition INTERACTIVE :: "jsstring list \<Rightarrow> bool" where
  "INTERACTIVE args = (hasFlag args (js ''-i'') \<or> hasFlag args (js ''--interactive''))"

subsection \<open>Interactive chat\<close>

text \<open>
  The loop is either waiting for a line or has left the \<open>while\<close>. One pass of the loop
  body, on the line \<open>q\<close> that \<open>askLine\<close> delivered, is \<open>chatLoop_step\<close>; \<open>question\<close>
  is the prompt \<open>rl.question\<close> writes before it waits.
\<close>

datatype loop_state = AwaitingInput | Terminated

definition question :: "jsstring \<Rightarrow> world \<Rightarrow> world" where
  "question query w = w\<lparr>stdout := stdout w @ [query]\<rparr>"

definition chatLoop_step ::
  "unicode_lower \<Rightarrow> network \<Rightarrow> environment \<Rightarrow> jsstring \<Rightarrow> jsstring option \<Rightarrow> jsstring \<Rightarrow> world
     \<Rightarrow> loop_state \<times> world" where
  "chatLoop_step U net env provider model q w =
     (if trim q = [] then (AwaitingInput, w)
      else if toLowerCase U (trim q) = js ''/exit'' then (Terminated, w)
      else case ask net env provider q model w of
             (Inr ans, w') \<Rightarrow> (AwaitingInput, out (js ''Prin'') ans w')
           | (Inl e, w') \<Rightarrow> (AwaitingInput, console_error (js ''Error: '' @ message e) w'))"

text \<open>
  The \<open>while (true)\<close> over the lines standard input delivers. When they run out the
  loop is left waiting in \<open>askLine\<close>. After the \<open>break\<close> only \<open>rl.close()\<close> follows,
  which writes nothing.
\<close>

fun chatLoop_while ::
  "unicode_lower \<Rightarrow> network \<Rightarrow> environment \<Rightarrow> jsstring \<Rightarrow> jsstring option \<Rightarrow> jsstring list
     \<Rightarrow> world \<Rightarrow> loop_state \<times> world" where
  "chatLoop_while U net env provider model [] w = (AwaitingInput, question (js ''You > '') w)"
| "chatLoop_while U net env provider model (q # qs) w =
     (case chatLoop_step U net env provider model q (question (js ''You > '') w) of
        (Terminated, w') \<Rightarrow> (Terminated, w')
      | (AwaitingInput, w') \<Rightarrow> chatLoop_while U net env provider model qs w')"

definition chatLoop ::
  "unicode_lower \<Rightarrow> network \<Rightarrow> environment \<Rightarrow> jsstring \<Rightarrow> jsstring option \<Rightarrow> jsstring list
     \<Rightarrow> world \<Rightarrow> loop_state \<times> world" where
  "chatLoop U net env provider model lines w =
     chatLoop_while U net env provider model lines
       (console_log (js ''Type '/exit' to quit.'' @ [0x0A])
         (console_log ([0x0A] @ js ''Prin Search '' @ [0x2014] @ js '' interactive mode''
                         @ [0x0A] @ js ''Provider: '' @ provider
                         @ (if truthy_opt model then js '' | Model: '' @ the model else [])) w))"

subsection \<open>Entry\<close>

definition usage :: jsstring where
  "usage = js ''Prin Search'' @ [0x0A, 0x0A]
     @ js ''Usage:'' @ [0x0A]
     @ js ''  node src/index.js -p gemini \"your prompt\"'' @ [0x0A]
     @ js ''  node src/index.js -p openai -m gpt-4o \"your prompt\"'' @ [0x0A]
     @ js ''  node src/index.js -i -p claude           (interactive)'' @ [0x0A]
     @ js ''Providers:'' @ [0x0A]
     @ js ''  openai | gemini | perplexity | deepseek | claude | grok'' @ [0x0A]"

text \<open>
  The entry function, on the arguments after the script name and the lines of standard
  input. \<open>Terminated\<close> says that it returned.
\<close>

definition entry ::
  "unicode_lower \<Rightarrow> network \<Rightarrow> environment \<Rightarrow> jsstring list \<Rightarrow> jsstring list \<Rightarrow> world
     \<Rightarrow> loop_state \<times> world" where
  "entry U net env args lines w =
     (if INTERACTIVE args then chatLoop U net env (PROVIDER U args) (MODEL args) lines w
      else if \<not> truthy_opt (PROMPT args) then (Terminated, console_log usage w)
      else case ask net env (PROVIDER U args) (the (PROMPT args)) (MODEL args) w of
             (Inr ans, w') \<Rightarrow> (Terminated, out (js ''Prin'') ans w')
           | (Inl e, w') \<Rightarrow> (Terminated, console_error (js ''Error: '' @ message e) w'))"

subsection \<open>The specification's vocabulary\<close>

text \<open>
  A content block of the Anthropic reply: an object whose \<open>text\<close> field, when it has
  one, is a string. \<open>block_text\<close> is that field, the empty string when it is missing.
\<close>

fun is_block :: "json \<Rightarrow> bool" where
  "is_block (JObj fs) = (case map_of fs (js ''text'') of None \<Rightarrow> True | Some (JStr s) \<Rightarrow> True | Some _ \<Rightarrow> False)"
| "is_block v = False"

fun block_text :: "json \<Rightarrow> jsstring" where
  "block_text (JObj fs) = (case map_of fs (js ''text'') of Some (JStr s) \<Rightarrow> s | _ \<Rightarrow> [])"
| "block_text v = []"

text \<open>
  The prompt as the specification words it: the last argument, when it does not begin
  with \<open>-\<close> and is not the value of a flag that takes one.
\<close>

definition value_flags :: "jsstring list" where
  "value_flags = [js ''-p'', js ''--provider'', js ''-m'', js ''--model'']"

definition spec_positional_prompt :: "jsstring list \<Rightarrow> jsstring option" where
  "spec_positional_prompt args =
     (if args \<noteq> [] \<and> \<not> startsWith (last args) (js ''-'')
         \<and> \<not> (2 \<le> length args \<and> args ! (length args - 2) \<in> set value_flags)
      then Some (last args) else None)"

subsection \<open>Concrete surroundings\<close>

text \<open>
  A network that answers every request with the text \<open>ok\<close> in the shape the asking
  client expects, environments with no and with every credential, and a world in which
  nothing has happened yet. \<open>kelvin_lower\<close> is an excerpt of the Unicode case table:
  the Kelvin sign \<open>U+212A\<close> becomes \<open>k\<close>, every other unit stays.
\<close>

definition kelvin_lower :: unicode_lower where
  "kelvin_lower s i = (if s ! i = 0x212A then [0x6B] else [s ! i])"

fun ok_network :: network where
  "ok_network history (ChatCompletion k u m ms) =
     Inr (JObj [(js ''choices'', JArr [JObj [(js ''message'', JObj [(js ''content'', JStr (js ''ok''))])]])])"
| "ok_network history (GenerateContent k m p) = Inr (JStr (js ''ok''))"
| "ok_network history (MessagesCreate k m n ms) =
     Inr (JObj [(js ''content'', JArr [JObj [(js ''text'', JStr (js ''ok''))]])])"

definition down_network :: network where
  "down_network history req = Inl (Error (js ''connect ECONNREFUSED''))"

definition no_credentials :: environment where
  "no_credentials name = None"

definition all_credentials :: environment where
  "all_credentials = map_of
     [(''OPENAI_API_KEY'', js ''sk-o''), (''GOOGLE_API_KEY'', js ''sk-g''), (''ANTHROPIC_API_KEY'', js ''sk-a''),
      (''PPLX_API_KEY'', js ''sk-p''), (''DEEPSEEK_API_KEY'', js ''sk-d''), (''XAI_API_KEY'', js ''sk-x'')]"

definition fresh_world :: world where
  "fresh_world = \<lparr>requests = [], stdout = [], stderr = []\<rparr>"

section \<open>Properties\<close>

subsection \<open>Literals\<close>

lemma of_char_word_eq_iff [simp]: "(of_char a :: 16 word) = of_char b \<longleftrightarrow> a = b"
proof -
  have tb: "take_bit 16 (of_char c :: nat) = of_char c" for c
    by (rule take_bit_nat_eq_self, rule less_trans [OF nat_of_char_less_256]) simp
  have "(word_of_nat (of_char a) :: 16 word) = word_of_nat (of_char b)
          \<longleftrightarrow> (of_char a :: nat) = of_char b"
    by (simp add: word_of_nat_eq_iff tb)
  then show ?thesis
    by (simp add: of_nat_of_char)
qed

lemma js_eq_iff [simp]: "js a = js b \<longleftrightarrow> a = b"
  by (simp add: js_def inj_map_eq_map inj_on_def)

lemma js_Nil_iff [simp]: "js s = [] \<longleftrightarrow> s = []" "[] = js s \<longleftrightarrow> s = []"
  by (auto simp: js_def)

subsection \<open>What a caller sends\<close>

lemma callOpenAI_requests:
  "requests (snd (callOpenAI net prompt model baseURL apiKey w)) =
     requests w @ [ChatCompletion apiKey (if truthy_opt baseURL then baseURL else None)
                     (case model of None \<Rightarrow> (js ''gpt-4o-mini'') | Some m \<Rightarrow> m)
                     [\<lparr>role = js ''user'', content = prompt\<rparr>]]"
  by (simp add: callOpenAI_def send_def DEFAULTS_def Let_def split: sum.splits option.splits)

lemma ask_openai_branch:
  "provider \<notin> {js ''gemini'', js ''claude'', js ''perplexity'', js ''deepseek'', js ''grok''} \<Longrightarrow>
   ask net env provider prompt model w =
     (if \<not> truthy_opt (env ''OPENAI_API_KEY'') then (Inl (Error (js ''Missing OPENAI_API_KEY'')), w)
      else callOpenAI net prompt (Some (or_str model (openai DEFAULTS))) None
             (the (env ''OPENAI_API_KEY'')) w)"
  by (simp add: ask_def Let_def)

lemma ask_openai_request:
  assumes "provider \<notin> {js ''gemini'', js ''claude'', js ''perplexity'', js ''deepseek'', js ''grok''}"
    and "env ''OPENAI_API_KEY'' = Some key" and "key \<noteq> []"
  shows "requests (snd (ask net env provider prompt model w)) =
     requests w @ [ChatCompletion key None (or_str model (js ''gpt-4o-mini''))
                     [\<lparr>role = js ''user'', content = prompt\<rparr>]]"
  using assms by (simp add: ask_openai_branch callOpenAI_requests DEFAULTS_def)

lemma ask_perplexity_request:
  assumes "env ''PPLX_API_KEY'' = Some key" and "key \<noteq> []"
  shows "requests (snd (ask net env (js ''perplexity'') prompt model w)) =
     requests w @ [ChatCompletion key (Some (js ''https://api.perplexity.ai'')) (or_str model (js ''sonar-pro''))
                     [\<lparr>role = js ''user'', content = prompt\<rparr>]]"
  using assms by (simp add: ask_def callPerplexity_def callOpenAI_requests DEFAULTS_def)

lemma ask_deepseek_request:
  assumes "env ''DEEPSEEK_API_KEY'' = Some key" and "key \<noteq> []"
  shows "requests (snd (ask net env (js ''deepseek'') prompt model w)) =
     requests w @ [ChatCompletion key (Some (js ''https://api.deepseek.com/v1'')) (or_str model (js ''deepseek-chat''))
                     [\<lparr>role = js ''user'', content = prompt\<rparr>]]"
  using assms by (simp add: ask_def callDeepSeek_def callOpenAI_requests DEFAULTS_def)

lemma ask_grok_request:
  assumes "env ''XAI_API_KEY'' = Some key" and "key \<noteq> []"
  shows "requests (snd (ask net env (js ''grok'') prompt model w)) =
     requests w @ [ChatCompletion key (Some (js ''https://api.x.ai/v1'')) (or_str model (js ''grok-2-latest''))
                     [\<lparr>role = js ''user'', content = prompt\<rparr>]]"
  using assms by (simp add: ask_def callGrok_def callOpenAI_requests DEFAULTS_def)

lemma ask_gemini_request:
  assumes "env ''GOOGLE_API_KEY'' = Some key" and "key \<noteq> []"
  shows "requests (snd (ask net env (js ''gemini'') prompt model w)) =
     requests w @ [GenerateContent key (or_str model (js ''gemini-1.5-flash'')) prompt]"
  using assms by (simp add: ask_def callGemini_def send_def DEFAULTS_def Let_def)

lemma ask_claude_request:
  assumes "env ''ANTHROPIC_API_KEY'' = Some key" and "key \<noteq> []"
  shows "requests (snd (ask net env (js ''claude'') prompt model w)) =
     requests w @ [MessagesCreate key (or_str model (js ''claude-3-5-sonnet-20240620'')) 1024
                     [\<lparr>role = js ''user'', content = prompt\<rparr>]]"
  using assms by (simp add: ask_def callClaude_def send_def DEFAULTS_def Let_def split: sum.splits)

lemma all_credentials_values:
  "all_credentials ''OPENAI_API_KEY'' = Some (js ''sk-o'')"
  "all_credentials ''GOOGLE_API_KEY'' = Some (js ''sk-g'')"
  "all_credentials ''ANTHROPIC_API_KEY'' = Some (js ''sk-a'')"
  "all_credentials ''PPLX_API_KEY'' = Some (js ''sk-p'')"
  "all_credentials ''DEEPSEEK_API_KEY'' = Some (js ''sk-d'')"
  "all_credentials ''XAI_API_KEY'' = Some (js ''sk-x'')"
  by (simp_all add: all_credentials_def)

subsection \<open>The fallback branch\<close>

text \<open>
  Claim C1. A provider key that is none of \<open>gemini\<close>, \<open>claude\<close>, \<open>perplexity\<close>,
  \<open>deepseek\<close>, \<open>grok\<close> (so \<open>foo\<close>, the empty string and \<open>chatgpt\<close>) makes \<open>ask\<close>
  behave exactly as \<open>openai\<close> does, for every prompt, model override, environment,
  network and world: the \<open>OPENAI_API_KEY\<close> check, then the OpenAI caller with the
  override or the default model \<open>gpt-4o-mini\<close> and no base URL.
\<close>

theorem ask_unrecognized_is_openai:
  assumes "provider \<notin> {js ''gemini'', js ''claude'', js ''perplexity'', js ''deepseek'', js ''grok''}"
  shows "ask net env provider prompt model w = ask net env (js ''openai'') prompt model w
       \<and> ask net env provider prompt model w =
           (if \<not> truthy_opt (env ''OPENAI_API_KEY'') then (Inl (Error (js ''Missing OPENAI_API_KEY'')), w)
            else callOpenAI net prompt (Some (or_str model (js ''gpt-4o-mini''))) None
                   (the (env ''OPENAI_API_KEY'')) w)"
proof -
  have "ask net env (js ''openai'') prompt model w =
     (if \<not> truthy_opt (env ''OPENAI_API_KEY'') then (Inl (Error (js ''Missing OPENAI_API_KEY'')), w)
      else callOpenAI net prompt (Some (or_str model (openai DEFAULTS))) None
             (the (env ''OPENAI_API_KEY'')) w)"
    by (rule ask_openai_branch) simp
  moreover note ask_openai_branch [OF assms, of net env prompt model w]
  moreover have "openai DEFAULTS = js ''gpt-4o-mini''"
    by (simp add: DEFAULTS_def)
  ultimately show ?thesis by simp
qed

theorem ask_unrecognized_is_openai_witness:
  "(js ''foo'') \<notin> {js ''gemini'', js ''claude'', js ''perplexity'', js ''deepseek'', js ''grok''}
   \<and> [] \<notin> {js ''gemini'', js ''claude'', js ''perplexity'', js ''deepseek'', js ''grok''}
   \<and> (js ''chatgpt'') \<notin> {js ''gemini'', js ''claude'', js ''perplexity'', js ''deepseek'', js ''grok''}
   \<and> ask ok_network all_credentials (js ''foo'') (js ''hi'') None fresh_world
        = ask ok_network all_credentials (js ''openai'') (js ''hi'') None fresh_world
   \<and> ask ok_network all_credentials [] (js ''hi'') None fresh_world
        = ask ok_network all_credentials (js ''openai'') (js ''hi'') None fresh_world
   \<and> ask ok_network all_credentials (js ''chatgpt'') (js ''hi'') None fresh_world
        = ask ok_network all_credentials (js ''openai'') (js ''hi'') None fresh_world"
  using ask_unrecognized_is_openai [of "(js ''foo'')" ok_network all_credentials "(js ''hi'')" None fresh_world]
        ask_unrecognized_is_openai [of "[]" ok_network all_credentials "(js ''hi'')" None fresh_world]
        ask_unrecognized_is_openai [of "(js ''chatgpt'')" ok_network all_credentials "(js ''hi'')" None fresh_world]
  by simp

subsection \<open>Missing credentials\<close>

text \<open>
  Claim C2. For each of the keys \<open>openai\<close>, \<open>chatgpt\<close>, \<open>gemini\<close>, \<open>claude\<close>,
  \<open>perplexity\<close>, \<open>deepseek\<close> and \<open>grok\<close>: when the environment variable of the branch
  is absent, \<open>ask\<close> fails with the error naming that variable and leaves the world as it
  was, so no request has been sent, whatever the network would have answered.
\<close>

theorem missing_credential_no_request:
  "(env ''OPENAI_API_KEY'' = None \<longrightarrow>
      ask net env (js ''openai'') prompt model w = (Inl (Error (js ''Missing OPENAI_API_KEY'')), w)
    \<and> ask net env (js ''chatgpt'') prompt model w = (Inl (Error (js ''Missing OPENAI_API_KEY'')), w))
 \<and> (env ''GOOGLE_API_KEY'' = None \<longrightarrow>
      ask net env (js ''gemini'') prompt model w = (Inl (Error (js ''Missing GOOGLE_API_KEY'')), w))
 \<and> (env ''ANTHROPIC_API_KEY'' = None \<longrightarrow>
      ask net env (js ''claude'') prompt model w = (Inl (Error (js ''Missing ANTHROPIC_API_KEY'')), w))
 \<and> (env ''PPLX_API_KEY'' = None \<longrightarrow>
      ask net env (js ''perplexity'') prompt model w = (Inl (Error (js ''Missing PPLX_API_KEY'')), w))
 \<and> (env ''DEEPSEEK_API_KEY'' = None \<longrightarrow>
      ask net env (js ''deepseek'') prompt model w = (Inl (Error (js ''Missing DEEPSEEK_API_KEY'')), w))
 \<and> (env ''XAI_API_KEY'' = None \<longrightarrow>
      ask net env (js ''grok'') prompt model w = (Inl (Error (js ''Missing XAI_API_KEY'')), w))"
  by (simp add: ask_def callGemini_def callClaude_def callPerplexity_def callDeepSeek_def
        callGrok_def Let_def)

theorem missing_credential_no_request_witness:
  "no_credentials ''OPENAI_API_KEY'' = None \<and> no_credentials ''GOOGLE_API_KEY'' = None
 \<and> no_credentials ''ANTHROPIC_API_KEY'' = None \<and> no_credentials ''PPLX_API_KEY'' = None
 \<and> no_credentials ''DEEPSEEK_API_KEY'' = None \<and> no_credentials ''XAI_API_KEY'' = None
 \<and> ask ok_network no_credentials (js ''openai'') (js ''hi'') None fresh_world
      = (Inl (Error (js ''Missing OPENAI_API_KEY'')), fresh_world)
 \<and> ask ok_network no_credentials (js ''chatgpt'') (js ''hi'') None fresh_world
      = (Inl (Error (js ''Missing OPENAI_API_KEY'')), fresh_world)
 \<and> ask ok_network no_credentials (js ''gemini'') (js ''hi'') None fresh_world
      = (Inl (Error (js ''Missing GOOGLE_API_KEY'')), fresh_world)
 \<and> ask ok_network no_credentials (js ''claude'') (js ''hi'') None fresh_world
      = (Inl (Error (js ''Missing ANTHROPIC_API_KEY'')), fresh_world)
 \<and> ask ok_network no_credentials (js ''perplexity'') (js ''hi'') None fresh_world
      = (Inl (Error (js ''Missing PPLX_API_KEY'')), fresh_world)
 \<and> ask ok_network no_credentials (js ''deepseek'') (js ''hi'') None fresh_world
      = (Inl (Error (js ''Missing DEEPSEEK_API_KEY'')), fresh_world)
 \<and> ask ok_network no_credentials (js ''grok'') (js ''hi'') None fresh_world
      = (Inl (Error (js ''Missing XAI_API_KEY'')), fresh_world)"
  using missing_credential_no_request [of no_credentials ok_network "(js ''hi'')" None fresh_world]
  by (simp add: no_credentials_def)

subsection \<open>Default models\<close>

text \<open>
  Claim C4. With no model override (\<open>null\<close>) and the credential of the branch set,
  the one request \<open>ask\<close> sends carries the default model of the provider:
  \<open>gpt-4o-mini\<close> for \<open>openai\<close> and for \<open>chatgpt\<close>, \<open>gemini-1.5-flash\<close>,
  \<open>claude-3-5-sonnet-20240620\<close>, \<open>sonar-pro\<close>, \<open>deepseek-chat\<close> and
  \<open>grok-2-latest\<close>.
\<close>

theorem default_model_when_no_override:
  "(env ''OPENAI_API_KEY'' = Some ko \<and> ko \<noteq> [] \<longrightarrow>
      requests (snd (ask net env (js ''openai'') prompt None w)) =
        requests w @ [ChatCompletion ko None (js ''gpt-4o-mini'') [\<lparr>role = js ''user'', content = prompt\<rparr>]]
    \<and> requests (snd (ask net env (js ''chatgpt'') prompt None w)) =
        requests w @ [ChatCompletion ko None (js ''gpt-4o-mini'') [\<lparr>role = js ''user'', content = prompt\<rparr>]])
 \<and> (env ''GOOGLE_API_KEY'' = Some kg \<and> kg \<noteq> [] \<longrightarrow>
      requests (snd (ask net env (js ''gemini'') prompt None w)) =
        requests w @ [GenerateContent kg (js ''gemini-1.5-flash'') prompt])
 \<and> (env ''ANTHROPIC_API_KEY'' = Some ka \<and> ka \<noteq> [] \<longrightarrow>
      requests (snd (ask net env (js ''claude'') prompt None w)) =
        requests w @ [MessagesCreate ka (js ''claude-3-5-sonnet-20240620'') 1024
                        [\<lparr>role = js ''user'', content = prompt\<rparr>]])
 \<and> (env ''PPLX_API_KEY'' = Some kp \<and> kp \<noteq> [] \<longrightarrow>
      requests (snd (ask net env (js ''perplexity'') prompt None w)) =
        requests w @ [ChatCompletion kp (Some (js ''https://api.perplexity.ai'')) (js ''sonar-pro'')
                        [\<lparr>role = js ''user'', content = prompt\<rparr>]])
 \<and> (env ''DEEPSEEK_API_KEY'' = Some kd \<and> kd \<noteq> [] \<longrightarrow>
      requests (snd (ask net env (js ''deepseek'') prompt None w)) =
        requests w @ [ChatCompletion kd (Some (js ''https://api.deepseek.com/v1'')) (js ''deepseek-chat'')
                        [\<lparr>role = js ''user'', content = prompt\<rparr>]])
 \<and> (env ''XAI_API_KEY'' = Some kx \<and> kx \<noteq> [] \<longrightarrow>
      requests (snd (ask net env (js ''grok'') prompt None w)) =
        requests w @ [ChatCompletion kx (Some (js ''https://api.x.ai/v1'')) (js ''grok-2-latest'')
                        [\<lparr>role = js ''user'', content = prompt\<rparr>]])"
  using ask_openai_request [of "(js ''openai'')" env ko net prompt None w]
        ask_openai_request [of "(js ''chatgpt'')" env ko net prompt None w]
        ask_gemini_request [of env kg net prompt None w]
        ask_claude_request [of env ka net prompt None w]
        ask_perplexity_request [of env kp net prompt None w]
        ask_deepseek_request [of env kd net prompt None w]
        ask_grok_request [of env kx net prompt None w]
  by (simp add: or_str_def)

theorem default_model_when_no_override_witness:
  "all_credentials ''OPENAI_API_KEY'' = Some (js ''sk-o'') \<and> (js ''sk-o'') \<noteq> []
 \<and> all_credentials ''GOOGLE_API_KEY'' = Some (js ''sk-g'') \<and> (js ''sk-g'') \<noteq> []
 \<and> all_credentials ''ANTHROPIC_API_KEY'' = Some (js ''sk-a'') \<and> (js ''sk-a'') \<noteq> []
 \<and> all_credentials ''PPLX_API_KEY'' = Some (js ''sk-p'') \<and> (js ''sk-p'') \<noteq> []
 \<and> all_credentials ''DEEPSEEK_API_KEY'' = Some (js ''sk-d'') \<and> (js ''sk-d'') \<noteq> []
 \<and> all_credentials ''XAI_API_KEY'' = Some (js ''sk-x'') \<and> (js ''sk-x'') \<noteq> []
 \<and> requests (snd (ask ok_network all_credentials (js ''openai'') (js ''hi'') None fresh_world)) =
       [ChatCompletion (js ''sk-o'') None (js ''gpt-4o-mini'') [\<lparr>role = js ''user'', content = js ''hi''\<rparr>]]
 \<and> requests (snd (ask ok_network all_credentials (js ''chatgpt'') (js ''hi'') None fresh_world)) =
       [ChatCompletion (js ''sk-o'') None (js ''gpt-4o-mini'') [\<lparr>role = js ''user'', content = js ''hi''\<rparr>]]
 \<and> requests (snd (ask ok_network all_credentials (js ''gemini'') (js ''hi'') None fresh_world)) =
       [GenerateContent (js ''sk-g'') (js ''gemini-1.5-flash'') (js ''hi'')]
 \<and> requests (snd (ask ok_network all_credentials (js ''claude'') (js ''hi'') None fresh_world)) =
       [MessagesCreate (js ''sk-a'') (js ''claude-3-5-sonnet-20240620'') 1024 [\<lparr>role = js ''user'', content = js ''hi''\<rparr>]]
 \<and> requests (snd (ask ok_network all_credentials (js ''perplexity'') (js ''hi'') None fresh_world)) =
       [ChatCompletion (js ''sk-p'') (Some (js ''https://api.perplexity.ai'')) (js ''sonar-pro'')
          [\<lparr>role = js ''user'', content = js ''hi''\<rparr>]]
 \<and> requests (snd (ask ok_network all_credentials (js ''deepseek'') (js ''hi'') None fresh_world)) =
       [ChatCompletion (js ''sk-d'') (Some (js ''https://api.deepseek.com/v1'')) (js ''deepseek-chat'')
          [\<lparr>role = js ''user'', content = js ''hi''\<rparr>]]
 \<and> requests (snd (ask ok_network all_credentials (js ''grok'') (js ''hi'') None fresh_world)) =
       [ChatCompletion (js ''sk-x'') (Some (js ''https://api.x.ai/v1'')) (js ''grok-2-latest'')
          [\<lparr>role = js ''user'', content = js ''hi''\<rparr>]]"
  using default_model_when_no_override [where env = all_credentials and ko = "(js ''sk-o'')" and kg = "(js ''sk-g'')"
          and ka = "(js ''sk-a'')" and kp = "(js ''sk-p'')" and kd = "(js ''sk-d'')" and kx = "(js ''sk-x'')"
          and net = ok_network and prompt = "(js ''hi'')" and w = fresh_world]
  by (simp add: all_credentials_values fresh_world_def)

subsection \<open>The OpenAI-compatible request\<close>

text \<open>
  Claim C7. \<open>callOpenAI\<close> always sends a chat-completion request whose messages are
  the single message with role \<open>user\<close> and the prompt, character for character, as
  content. So do the four providers that go through it (\<open>openai\<close>, \<open>perplexity\<close>,
  \<open>deepseek\<close>, \<open>grok\<close>) once their credential is set, with or without a model
  override.
\<close>

theorem openai_compatible_single_user_message:
  "requests (snd (callOpenAI net prompt model baseURL apiKey w)) =
     requests w @ [ChatCompletion apiKey (if truthy_opt baseURL then baseURL else None)
                     (case model of None \<Rightarrow> (js ''gpt-4o-mini'') | Some m \<Rightarrow> m)
                     [\<lparr>role = js ''user'', content = prompt\<rparr>]]
 \<and> (env ''OPENAI_API_KEY'' = Some key \<and> key \<noteq> [] \<longrightarrow>
      requests (snd (ask net env (js ''openai'') prompt override w)) =
        requests w @ [ChatCompletion key None (or_str override (js ''gpt-4o-mini''))
                        [\<lparr>role = js ''user'', content = prompt\<rparr>]])
 \<and> (env ''PPLX_API_KEY'' = Some key \<and> key \<noteq> [] \<longrightarrow>
      requests (snd (ask net env (js ''perplexity'') prompt override w)) =
        requests w @ [ChatCompletion key (Some (js ''https://api.perplexity.ai'')) (or_str override (js ''sonar-pro''))
                        [\<lparr>role = js ''user'', content = prompt\<rparr>]])
 \<and> (env ''DEEPSEEK_API_KEY'' = Some key \<and> key \<noteq> [] \<longrightarrow>
      requests (snd (ask net env (js ''deepseek'') prompt override w)) =
        requests w @ [ChatCompletion key (Some (js ''https://api.deepseek.com/v1'')) (or_str override (js ''deepseek-chat''))
                        [\<lparr>role = js ''user'', content = prompt\<rparr>]])
 \<and> (env ''XAI_API_KEY'' = Some key \<and> key \<noteq> [] \<longrightarrow>
      requests (snd (ask net env (js ''grok'') prompt override w)) =
        requests w @ [ChatCompletion key (Some (js ''https://api.x.ai/v1'')) (or_str override (js ''grok-2-latest''))
                        [\<lparr>role = js ''user'', content = prompt\<rparr>]])"
  using callOpenAI_requests [of net prompt model baseURL apiKey w]
        ask_openai_request [of "(js ''openai'')" env key net prompt override w]
        ask_perplexity_request [of env key net prompt override w]
        ask_deepseek_request [of env key net prompt override w]
        ask_grok_request [of env key net prompt override w]
  by simp

theorem openai_compatible_single_user_message_witness:
  "all_credentials ''OPENAI_API_KEY'' = Some (js ''sk-o'') \<and> (js ''sk-o'') \<noteq> []
 \<and> all_credentials ''PPLX_API_KEY'' = Some (js ''sk-p'') \<and> (js ''sk-p'') \<noteq> []
 \<and> all_credentials ''DEEPSEEK_API_KEY'' = Some (js ''sk-d'') \<and> (js ''sk-d'') \<noteq> []
 \<and> all_credentials ''XAI_API_KEY'' = Some (js ''sk-x'') \<and> (js ''sk-x'') \<noteq> []
 \<and> requests (snd (ask down_network all_credentials (js ''openai'') (js '' Hello, World?  '') (Some (js ''gpt-4o'')) fresh_world)) =
        [ChatCompletion (js ''sk-o'') None (js ''gpt-4o'') [\<lparr>role = js ''user'', content = js '' Hello, World?  ''\<rparr>]]
 \<and> requests (snd (ask down_network all_credentials (js ''perplexity'') (js '' Hello, World?  '') None fresh_world)) =
        [ChatCompletion (js ''sk-p'') (Some (js ''https://api.perplexity.ai'')) (js ''sonar-pro'')
           [\<lparr>role = js ''user'', content = js '' Hello, World?  ''\<rparr>]]
 \<and> requests (snd (ask down_network all_credentials (js ''deepseek'') (js '' Hello, World?  '') None fresh_world)) =
        [ChatCompletion (js ''sk-d'') (Some (js ''https://api.deepseek.com/v1'')) (js ''deepseek-chat'')
           [\<lparr>role = js ''user'', content = js '' Hello, World?  ''\<rparr>]]
 \<and> requests (snd (ask down_network all_credentials (js ''grok'') (js '' Hello, World?  '') None fresh_world)) =
        [ChatCompletion (js ''sk-x'') (Some (js ''https://api.x.ai/v1'')) (js ''grok-2-latest'')
           [\<lparr>role = js ''user'', content = js '' Hello, World?  ''\<rparr>]]"
  using openai_compatible_single_user_message
          [where net = down_network and env = all_credentials and key = "(js ''sk-o'')"
             and prompt = "(js '' Hello, World?  '')" and override = "Some (js ''gpt-4o'')" and w = fresh_world]
        openai_compatible_single_user_message
          [where net = down_network and env = all_credentials and key = "(js ''sk-p'')"
             and prompt = "(js '' Hello, World?  '')" and override = None and w = fresh_world]
        openai_compatible_single_user_message
          [where net = down_network and env = all_credentials and key = "(js ''sk-d'')"
             and prompt = "(js '' Hello, World?  '')" and override = None and w = fresh_world]
        openai_compatible_single_user_message
          [where net = down_network and env = all_credentials and key = "(js ''sk-x'')"
             and prompt = "(js '' Hello, World?  '')" and override = None and w = fresh_world]
  by (simp add: all_credentials_values fresh_world_def or_str_def)

subsection \<open>Case of the provider key\<close>



lemma toLowerCase_Nil [simp]: "toLowerCase U [] = []"
  by (simp add: toLowerCase_def)






subsection \<open>The answer of an OpenAI-compatible reply\<close>

text \<open>
  Claim C5. On a reply object the normalizer of \<open>callOpenAI\<close> never raises. It
  returns the empty string when \<open>choices\<close> is absent, when it is the empty array, when
  the first choice has no \<open>message\<close> and when the message has no \<open>content\<close>; and it
  returns the string \<open>choices[0].message.content\<close> itself when that path leads to a
  string.
\<close>

theorem openai_content_path:
  "(\<not> nullish res \<longrightarrow> (\<exists>v. openai_content res = Inr v))
 \<and> (map_of fs (js ''choices'') = None \<longrightarrow> openai_content (JObj fs) = Inr (JStr []))
 \<and> (map_of fs (js ''choices'') = Some (JArr []) \<longrightarrow> openai_content (JObj fs) = Inr (JStr []))
 \<and> (map_of fs (js ''choices'') = Some (JArr (JObj c # cs)) \<and> map_of c (js ''message'') = None \<longrightarrow>
      openai_content (JObj fs) = Inr (JStr []))
 \<and> (map_of fs (js ''choices'') = Some (JArr (JObj c # cs)) \<and> map_of c (js ''message'') = Some (JObj m)
      \<and> map_of m (js ''content'') = None \<longrightarrow>
      openai_content (JObj fs) = Inr (JStr []))
 \<and> (map_of fs (js ''choices'') = Some (JArr (JObj c # cs)) \<and> map_of c (js ''message'') = Some (JObj m)
      \<and> map_of m (js ''content'') = Some (JStr s) \<longrightarrow>
      openai_content (JObj fs) = Inr (JStr s))"
  by (simp add: openai_content_def opt_prop_def opt_index0_def or_else_def)

theorem openai_content_path_witness:
  "\<not> nullish (JObj [(js ''id'', JStr (js ''x''))])
 \<and> map_of [(js ''id'', JStr (js ''x''))] (js ''choices'') = None
 \<and> openai_content (JObj [(js ''id'', JStr (js ''x''))]) = Inr (JStr [])
 \<and> map_of [(js ''choices'', JArr [])] (js ''choices'') = Some (JArr [])
 \<and> openai_content (JObj [(js ''choices'', JArr [])]) = Inr (JStr [])
 \<and> map_of [(js ''choices'', JArr [JObj [(js ''message'', JObj [(js ''content'', JStr (js ''hi''))])]])] (js ''choices'')
      = Some (JArr (JObj [(js ''message'', JObj [(js ''content'', JStr (js ''hi''))])] # []))
 \<and> map_of [(js ''message'', JObj [(js ''content'', JStr (js ''hi''))])] (js ''message'') = Some (JObj [(js ''content'', JStr (js ''hi''))])
 \<and> map_of [(js ''content'', JStr (js ''hi''))] (js ''content'') = Some (JStr (js ''hi''))
 \<and> openai_content (JObj [(js ''choices'', JArr [JObj [(js ''message'', JObj [(js ''content'', JStr (js ''hi''))])]])])
      = Inr (JStr (js ''hi''))"
  using openai_content_path [where res = "JObj [(js ''id'', JStr (js ''x''))]" and fs = "[(js ''id'', JStr (js ''x''))]"]
        openai_content_path [where fs = "[(js ''choices'', JArr [])]"]
        openai_content_path [where fs = "[(js ''choices'', JArr [JObj [(js ''message'', JObj [(js ''content'', JStr (js ''hi''))])]])]"
           and c = "[(js ''message'', JObj [(js ''content'', JStr (js ''hi''))])]" and cs = "[]"
           and m = "[(js ''content'', JStr (js ''hi''))]" and s = "(js ''hi'')"]
  by simp

subsection \<open>The answer of an Anthropic reply\<close>

lemma join_empty_sep: "join [] xs = concat xs"
  by (induction "[] :: jsstring" xs rule: join.induct) simp_all

lemma block_part:
  "is_block b \<Longrightarrow>
   (let v = or_else (getprop b (js ''text'')) (JStr []) in if nullish v then [] else toString v) = block_text b"
  by (cases b) (auto simp: or_else_def split: option.splits json.splits)

lemma blocks_join:
  "list_all is_block bs \<Longrightarrow>
   array_join (map (\<lambda>b. or_else (getprop b (js ''text'')) (JStr [])) bs) [] = concat (map block_text bs)"
proof -
  assume a: "list_all is_block bs"
  have "map (\<lambda>x. if nullish x then [] else toString x) (map (\<lambda>b. or_else (getprop b (js ''text'')) (JStr [])) bs)
        = map block_text bs"
    using a block_part by (induction bs) (simp_all add: Let_def)
  then show ?thesis
    by (simp only: array_join_def join_empty_sep)
qed

lemma block_not_nullish: "is_block b \<Longrightarrow> \<not> nullish b"
  by (cases b) simp_all

text \<open>
  Claim C6. On a reply whose \<open>content\<close> is a sequence of content blocks, the
  normalizer of \<open>callClaude\<close> returns the texts of the blocks concatenated in order, a
  block without \<open>text\<close> counting as the empty string, with leading and trailing white
  space trimmed. On the blocks \<open>[{text:"a"}, {}, {text:"b"}]\<close> that is \<open>ab\<close>.
\<close>

theorem claude_text_concat_trim:
  assumes "list_all is_block bs" and "map_of fs (js ''content'') = Some (JArr bs)"
  shows "claude_text (JObj fs) = Inr (JStr (trim (concat (map block_text bs))))"
proof -
  from assms(1) have "\<not> (\<exists>b \<in> set bs. nullish b)"
    by (auto simp: list_all_iff dest: block_not_nullish)
  with assms(2) blocks_join [OF assms(1)] show ?thesis
    by (simp add: claude_text_def or_else_def)
qed

theorem claude_text_concat_trim_witness:
  "list_all is_block [JObj [(js ''text'', JStr (js ''a''))], JObj [], JObj [(js ''text'', JStr (js ''b''))]]
 \<and> map_of [(js ''content'',
            JArr [JObj [(js ''text'', JStr (js ''a''))], JObj [], JObj [(js ''text'', JStr (js ''b''))]])]
      (js ''content'')
      = Some (JArr [JObj [(js ''text'', JStr (js ''a''))], JObj [], JObj [(js ''text'', JStr (js ''b''))]])
 \<and> claude_text (JObj [(js ''content'',
            JArr [JObj [(js ''text'', JStr (js ''a''))], JObj [], JObj [(js ''text'', JStr (js ''b''))]])])
      = Inr (JStr (js ''ab''))
 \<and> list_all is_block [JObj [(js ''text'', JStr ([0xA0] @ js ''a ''))],
                       JObj [(js ''type'', JStr (js ''tool_use''))],
                       JObj [(js ''text'', JStr (js ''b'' @ [0x0A, 0x2003]))]]
 \<and> map_of [(js ''id'', JStr (js ''msg_1'')),
           (js ''content'', JArr [JObj [(js ''text'', JStr ([0xA0] @ js ''a ''))],
                                 JObj [(js ''type'', JStr (js ''tool_use''))],
                                 JObj [(js ''text'', JStr (js ''b'' @ [0x0A, 0x2003]))]])]
      (js ''content'')
      = Some (JArr [JObj [(js ''text'', JStr ([0xA0] @ js ''a ''))],
                    JObj [(js ''type'', JStr (js ''tool_use''))],
                    JObj [(js ''text'', JStr (js ''b'' @ [0x0A, 0x2003]))]])
 \<and> claude_text (JObj [(js ''id'', JStr (js ''msg_1'')),
           (js ''content'', JArr [JObj [(js ''text'', JStr ([0xA0] @ js ''a ''))],
                                 JObj [(js ''type'', JStr (js ''tool_use''))],
                                 JObj [(js ''text'', JStr (js ''b'' @ [0x0A, 0x2003]))]])])
      = Inr (JStr (js ''a b''))"
proof -
  have a: "list_all is_block [JObj [(js ''text'', JStr (js ''a''))], JObj [], JObj [(js ''text'', JStr (js ''b''))]]"
    by simp
  have b: "map_of [(js ''content'',
            JArr [JObj [(js ''text'', JStr (js ''a''))], JObj [], JObj [(js ''text'', JStr (js ''b''))]])]
      (js ''content'')
      = Some (JArr [JObj [(js ''text'', JStr (js ''a''))], JObj [], JObj [(js ''text'', JStr (js ''b''))]])"
    by simp
  have c: "trim (concat (map block_text
             [JObj [(js ''text'', JStr (js ''a''))], JObj [], JObj [(js ''text'', JStr (js ''b''))]]))
           = js ''ab''"
    by code_simp
  have d: "list_all is_block [JObj [(js ''text'', JStr ([0xA0] @ js ''a ''))],
                       JObj [(js ''type'', JStr (js ''tool_use''))],
                       JObj [(js ''text'', JStr (js ''b'' @ [0x0A, 0x2003]))]]"
    by simp
  have e: "map_of [(js ''id'', JStr (js ''msg_1'')),
           (js ''content'', JArr [JObj [(js ''text'', JStr ([0xA0] @ js ''a ''))],
                                 JObj [(js ''type'', JStr (js ''tool_use''))],
                                 JObj [(js ''text'', JStr (js ''b'' @ [0x0A, 0x2003]))]])]
      (js ''content'')
      = Some (JArr [JObj [(js ''text'', JStr ([0xA0] @ js ''a ''))],
                    JObj [(js ''type'', JStr (js ''tool_use''))],
                    JObj [(js ''text'', JStr (js ''b'' @ [0x0A, 0x2003]))]])"
    by simp
  have f: "trim (concat (map block_text
             [JObj [(js ''text'', JStr ([0xA0] @ js ''a ''))],
              JObj [(js ''type'', JStr (js ''tool_use''))],
              JObj [(js ''text'', JStr (js ''b'' @ [0x0A, 0x2003]))]]))
           = js ''a b''"
    by code_simp
  from claude_text_concat_trim [OF a b] claude_text_concat_trim [OF d e] a b c d e f
  show ?thesis by simp
qed

subsection \<open>The interactive loop\<close>

lemma trim_Nil_iff: "trim q = [] \<longleftrightarrow> (\<forall>c \<in> set q. is_space c)"
proof
  assume "trim q = []"
  then have "\<forall>c \<in> set (dropWhile is_space q). is_space c"
    by (simp add: trim_def dropWhile_eq_Nil_conv)
  then have "dropWhile is_space q = []"
    using hd_dropWhile [of is_space q] by (cases "dropWhile is_space q") auto
  then show "\<forall>c \<in> set q. is_space c"
    by (simp add: dropWhile_eq_Nil_conv)
next
  assume "\<forall>c \<in> set q. is_space c"
  then have "dropWhile is_space q = []"
    by (simp add: dropWhile_eq_Nil_conv)
  then show "trim q = []"
    by (simp only: trim_def rev.simps dropWhile.simps)
qed

lemma chatLoop_step_Terminated_iff:
  "fst (chatLoop_step U net env provider model q w) = Terminated \<longleftrightarrow> toLowerCase U (trim q) = js ''/exit''"
  by (auto simp: chatLoop_step_def split: prod.splits sum.splits)

lemma chatLoop_while_Terminated_iff:
  "fst (chatLoop_while U net env provider model lines w) = Terminated
     \<longleftrightarrow> (\<exists>q \<in> set lines. toLowerCase U (trim q) = js ''/exit'')"
proof (induction lines arbitrary: w)
  case Nil
  then show ?case by simp
next
  case (Cons q qs)
  obtain st w' where step: "chatLoop_step U net env provider model q (question (js ''You > '') w) = (st, w')"
    by (cases "chatLoop_step U net env provider model q (question (js ''You > '') w)")
  show ?case
  proof (cases st)
    case AwaitingInput
    with step chatLoop_step_Terminated_iff [of U net env provider model q "question (js ''You > '') w"]
    have "toLowerCase U (trim q) \<noteq> js ''/exit''" by simp
    with step AwaitingInput Cons.IH [of w'] show ?thesis by simp
  next
    case Terminated
    with step chatLoop_step_Terminated_iff [of U net env provider model q "question (js ''You > '') w"]
    have "toLowerCase U (trim q) = js ''/exit''" by simp
    with step Terminated show ?thesis by simp
  qed
qed

text \<open>
  Claim C8. One pass of the loop on the line \<open>q\<close>: an empty or white-space-only line
  (one that \<open>trim\<close> empties, which is one made of white space alone)
  leaves the loop waiting and the world untouched, so \<open>ask\<close> has not run; a line
  that is \<open>/exit\<close> after trimming and case folding ends the loop, the world untouched
  as well; a line on which \<open>ask\<close> fails writes \<open>Error:\<close> and the message of the error
  and leaves the loop waiting. The pass ends the loop only on the exit line, and the
  whole loop ends only when one of its input lines is the exit line.
\<close>

theorem chatLoop_step_relation:
  "(trim q = [] \<longrightarrow> chatLoop_step U net env provider model q w = (AwaitingInput, w))
 \<and> (toLowerCase U (trim q) = js ''/exit'' \<longrightarrow> chatLoop_step U net env provider model q w = (Terminated, w))
 \<and> (trim q \<noteq> [] \<and> toLowerCase U (trim q) \<noteq> js ''/exit'' \<and> ask net env provider q model w = (Inl e, w') \<longrightarrow>
      chatLoop_step U net env provider model q w = (AwaitingInput, console_error (js ''Error: '' @ message e) w'))
 \<and> (fst (chatLoop_step U net env provider model q w) = Terminated \<longleftrightarrow> toLowerCase U (trim q) = js ''/exit'')
 \<and> (fst (chatLoop_while U net env provider model lines w) = Terminated
      \<longleftrightarrow> (\<exists>l \<in> set lines. toLowerCase U (trim l) = js ''/exit''))
 \<and> ((\<forall>c \<in> set q. is_space c) \<longrightarrow> chatLoop_step U net env provider model q w = (AwaitingInput, w))"
proof -
  have a: "trim q = [] \<longrightarrow> chatLoop_step U net env provider model q w = (AwaitingInput, w)"
    by (simp add: chatLoop_step_def)
  have b: "toLowerCase U (trim q) = js ''/exit'' \<longrightarrow> chatLoop_step U net env provider model q w = (Terminated, w)"
    by (auto simp: chatLoop_step_def)
  have c: "trim q \<noteq> [] \<and> toLowerCase U (trim q) \<noteq> js ''/exit'' \<and> ask net env provider q model w = (Inl e, w') \<longrightarrow>
      chatLoop_step U net env provider model q w = (AwaitingInput, console_error (js ''Error: '' @ message e) w')"
    by (simp add: chatLoop_step_def)
  have d: "(\<forall>c \<in> set q. is_space c) \<longrightarrow> chatLoop_step U net env provider model q w = (AwaitingInput, w)"
    by (simp add: chatLoop_step_def trim_Nil_iff)
  from a b c d chatLoop_step_Terminated_iff [of U net env provider model q w]
       chatLoop_while_Terminated_iff [of U net env provider model lines w]
  show ?thesis by blast
qed

theorem chatLoop_step_relation_witness:
  "trim (js ''  '') = []
 \<and> chatLoop_step kelvin_lower ok_network all_credentials (js ''gemini'') None (js ''  '') fresh_world
      = (AwaitingInput, fresh_world)
 \<and> trim [0xA0, 0x09, 0x3000] = []
 \<and> chatLoop_step kelvin_lower ok_network all_credentials (js ''gemini'') None [0xA0, 0x09, 0x3000] fresh_world
      = (AwaitingInput, fresh_world)
 \<and> toLowerCase kelvin_lower (trim (js ''/EXIT'')) = js ''/exit''
 \<and> chatLoop_step kelvin_lower ok_network all_credentials (js ''gemini'') None (js ''/EXIT'') fresh_world
      = (Terminated, fresh_world)
 \<and> toLowerCase kelvin_lower (trim ([0xA0] @ js ''/Exit '')) = js ''/exit''
 \<and> chatLoop_step kelvin_lower ok_network all_credentials (js ''gemini'') None ([0xA0] @ js ''/Exit '') fresh_world
      = (Terminated, fresh_world)
 \<and> trim (js ''hi'') \<noteq> [] \<and> toLowerCase kelvin_lower (trim (js ''hi'')) \<noteq> js ''/exit''
 \<and> ask ok_network no_credentials (js ''gemini'') (js ''hi'') None fresh_world
      = (Inl (Error (js ''Missing GOOGLE_API_KEY'')), fresh_world)
 \<and> chatLoop_step kelvin_lower ok_network no_credentials (js ''gemini'') None (js ''hi'') fresh_world
      = (AwaitingInput,
         console_error (js ''Error: '' @ message (Error (js ''Missing GOOGLE_API_KEY''))) fresh_world)
 \<and> (\<exists>l \<in> set [js ''hi'', js ''  '', js '' /Exit '', js ''more'']. toLowerCase kelvin_lower (trim l) = js ''/exit'')
 \<and> fst (chatLoop_while kelvin_lower down_network all_credentials (js ''grok'') None
           [js ''hi'', js ''  '', js '' /Exit '', js ''more''] fresh_world)
      = Terminated"
proof -
  have a: "trim (js ''  '') = []"
    by code_simp
  have a': "trim [0xA0, 0x09, 0x3000] = []"
    by code_simp
  have b: "toLowerCase kelvin_lower (trim (js ''/EXIT'')) = js ''/exit''"
    by code_simp
  have b': "toLowerCase kelvin_lower (trim ([0xA0] @ js ''/Exit '')) = js ''/exit''"
    by code_simp
  have c: "trim (js ''hi'') \<noteq> []"
    by code_simp
  have c': "toLowerCase kelvin_lower (trim (js ''hi'')) \<noteq> js ''/exit''"
    by code_simp
  have d: "ask ok_network no_credentials (js ''gemini'') (js ''hi'') None fresh_world
      = (Inl (Error (js ''Missing GOOGLE_API_KEY'')), fresh_world)"
    by (simp add: ask_def callGemini_def no_credentials_def)
  have e: "toLowerCase kelvin_lower (trim (js '' /Exit '')) = js ''/exit''"
    by code_simp
  then have f: "\<exists>l \<in> set [js ''hi'', js ''  '', js '' /Exit '', js ''more''].
                  toLowerCase kelvin_lower (trim l) = js ''/exit''"
    by simp
  have r1: "chatLoop_step kelvin_lower ok_network all_credentials (js ''gemini'') None (js ''  '') fresh_world
      = (AwaitingInput, fresh_world)"
    using a chatLoop_step_relation [where q = "js ''  ''" and U = kelvin_lower and net = ok_network
       and env = all_credentials and provider = "js ''gemini''" and model = None and w = fresh_world,
       THEN conjunct1]
    by (rule rev_mp)
  have r2: "chatLoop_step kelvin_lower ok_network all_credentials (js ''gemini'') None [0xA0, 0x09, 0x3000] fresh_world
      = (AwaitingInput, fresh_world)"
    using a' chatLoop_step_relation [where q = "[0xA0, 0x09, 0x3000]" and U = kelvin_lower and net = ok_network
       and env = all_credentials and provider = "js ''gemini''" and model = None and w = fresh_world,
       THEN conjunct1]
    by (rule rev_mp)
  have r3: "chatLoop_step kelvin_lower ok_network all_credentials (js ''gemini'') None (js ''/EXIT'') fresh_world
      = (Terminated, fresh_world)"
    using b chatLoop_step_relation [where q = "js ''/EXIT''" and U = kelvin_lower and net = ok_network
       and env = all_credentials and provider = "js ''gemini''" and model = None and w = fresh_world,
       THEN conjunct2, THEN conjunct1]
    by (rule rev_mp)
  have r4: "chatLoop_step kelvin_lower ok_network all_credentials (js ''gemini'') None ([0xA0] @ js ''/Exit '') fresh_world
      = (Terminated, fresh_world)"
    using b' chatLoop_step_relation [where q = "[0xA0] @ js ''/Exit ''" and U = kelvin_lower and net = ok_network
       and env = all_credentials and provider = "js ''gemini''" and model = None and w = fresh_world,
       THEN conjunct2, THEN conjunct1]
    by (rule rev_mp)
  from c c' d have cd: "trim (js ''hi'') \<noteq> [] \<and> toLowerCase kelvin_lower (trim (js ''hi'')) \<noteq> js ''/exit''
      \<and> ask ok_network no_credentials (js ''gemini'') (js ''hi'') None fresh_world
           = (Inl (Error (js ''Missing GOOGLE_API_KEY'')), fresh_world)"
    by (intro conjI)
  have r5: "chatLoop_step kelvin_lower ok_network no_credentials (js ''gemini'') None (js ''hi'') fresh_world
      = (AwaitingInput,
         console_error (js ''Error: '' @ message (Error (js ''Missing GOOGLE_API_KEY''))) fresh_world)"
    using cd chatLoop_step_relation [where q = "js ''hi''" and U = kelvin_lower and net = ok_network
       and env = no_credentials and provider = "js ''gemini''" and model = None and w = fresh_world
       and e = "Error (js ''Missing GOOGLE_API_KEY'')" and w' = fresh_world,
       THEN conjunct2, THEN conjunct2, THEN conjunct1]
    by (rule rev_mp)
  have r6: "fst (chatLoop_while kelvin_lower down_network all_credentials (js ''grok'') None
           [js ''hi'', js ''  '', js '' /Exit '', js ''more''] fresh_world)
      = Terminated"
    using f chatLoop_step_relation [where U = kelvin_lower and net = down_network and env = all_credentials
       and provider = "js ''grok''" and model = None and w = fresh_world
       and lines = "[js ''hi'', js ''  '', js '' /Exit '', js ''more'']",
       THEN conjunct2, THEN conjunct2, THEN conjunct2, THEN conjunct2, THEN conjunct1]
    by (rule rev_iffD2)
  from a r1 a' r2 b r3 b' r4 c c' d r5 f r6 show ?thesis
    by (intro conjI)
qed

subsection \<open>The prompt of a one-shot run\<close>

lemma PROMPT_last:
  "PROMPT args = (if args \<noteq> [] \<and> \<not> startsWith (last args) (js ''-'') then Some (last args) else None)"
proof (cases args rule: rev_cases)
  case Nil
  then show ?thesis by (simp add: PROMPT_def)
next
  case (snoc xs x)
  have "filter (\<lambda>(i, a). int i = int (length xs) \<and> \<not> startsWith a (js ''-'')) (enumerate 0 xs) = []"
    by (auto simp: filter_empty_conv in_set_enumerate_eq)
  with snoc show ?thesis
    by (simp add: PROMPT_def enumerate_append_eq)
qed

text \<open>
  Claim C9, as the code has it. Without \<open>-i\<close> and \<open>--interactive\<close>, the program
  dispatches the last argument as the prompt exactly when that argument is not empty
  and does not begin with \<open>-\<close>; otherwise it prints the usage message. Whether the
  last argument is the value of a preceding flag plays no part.
\<close>

theorem one_shot_prompt_is_last_argument:
  assumes "\<not> INTERACTIVE args"
  shows "entry U net env args lines w =
           (if args \<noteq> [] \<and> last args \<noteq> [] \<and> \<not> startsWith (last args) (js ''-'')
            then case ask net env (PROVIDER U args) (last args) (MODEL args) w of
                   (Inr ans, w') \<Rightarrow> (Terminated, out (js ''Prin'') ans w')
                 | (Inl e, w') \<Rightarrow> (Terminated, console_error (js ''Error: '' @ message e) w')
            else (Terminated, console_log usage w))"
  using assms by (simp add: entry_def PROMPT_last)

theorem one_shot_prompt_is_last_argument_witness:
  "\<not> INTERACTIVE [js ''-m'', js ''gpt-4o'', js ''-p'', js ''openai'']
 \<and> entry kelvin_lower ok_network all_credentials [js ''-m'', js ''gpt-4o'', js ''-p'', js ''openai''] [] fresh_world
     = (Terminated, out (js ''Prin'') (JStr (js ''ok''))
          \<lparr>requests = [ChatCompletion (js ''sk-o'') None (js ''gpt-4o'') [\<lparr>role = js ''user'', content = js ''openai''\<rparr>]],
             stdout = [], stderr = []\<rparr>)"
proof -
  have a: "\<not> INTERACTIVE [js ''-m'', js ''gpt-4o'', js ''-p'', js ''openai'']"
    by (simp add: INTERACTIVE_def hasFlag_def)
  have b: "PROVIDER kelvin_lower [js ''-m'', js ''gpt-4o'', js ''-p'', js ''openai''] = js ''openai''"
    by code_simp
  have c: "MODEL [js ''-m'', js ''gpt-4o'', js ''-p'', js ''openai''] = Some (js ''gpt-4o'')"
    by code_simp
  have d: "ask ok_network all_credentials (js ''openai'') (js ''openai'') (Some (js ''gpt-4o'')) fresh_world
     = (Inr (JStr (js ''ok'')),
          \<lparr>requests = [ChatCompletion (js ''sk-o'') None (js ''gpt-4o'') [\<lparr>role = js ''user'', content = js ''openai''\<rparr>]],
             stdout = [], stderr = []\<rparr>)"
    by code_simp
  have e: "\<not> startsWith (js ''openai'') (js ''-'')"
    by code_simp
  from one_shot_prompt_is_last_argument [OF a, of kelvin_lower ok_network all_credentials "[]" fresh_world] a b c d e
  show ?thesis by simp
qed

text \<open>
  The claim as the specification words it fails on the arguments \<open>-p gemini\<close>: the
  last argument is the value of \<open>-p\<close>, so no positional prompt is there, yet the
  program sends the prompt \<open>gemini\<close> to the Gemini client.
\<close>

theorem flag_value_dispatched_as_prompt:
  "\<not> INTERACTIVE [js ''-p'', js ''gemini'']
 \<and> spec_positional_prompt [js ''-p'', js ''gemini''] = None
 \<and> PROMPT [js ''-p'', js ''gemini''] = Some (js ''gemini'')
 \<and> requests (snd (entry kelvin_lower ok_network all_credentials [js ''-p'', js ''gemini''] [] fresh_world))
      = [GenerateContent (js ''sk-g'') (js ''gemini-1.5-flash'') (js ''gemini'')]"
proof -
  have a: "\<not> INTERACTIVE [js ''-p'', js ''gemini'']"
    by (simp add: INTERACTIVE_def hasFlag_def)
  have b: "spec_positional_prompt [js ''-p'', js ''gemini''] = None"
    by (simp add: spec_positional_prompt_def value_flags_def)
  have c: "PROMPT [js ''-p'', js ''gemini''] = Some (js ''gemini'')"
    by code_simp
  have d: "requests (snd (entry kelvin_lower ok_network all_credentials [js ''-p'', js ''gemini''] [] fresh_world))
      = [GenerateContent (js ''sk-g'') (js ''gemini-1.5-flash'') (js ''gemini'')]"
    by code_simp
  from a b c d show ?thesis by blast
qed

subsection \<open>A one-shot run without a prompt\<close>



end
